theory Spec2Isabelle
  imports Main "HOL-Library.Signed_Division"
begin

section \<open>The result header: outcomes of a call\<close>

text \<open>
  The header is modelled in its default build (\<open>NO_EXCEPTIONS\<close> not defined). A call
  either returns a value, leaves by a C++ exception that a caller may catch, ends the
  process through \<open>std::terminate\<close> while an exception is active, or has undefined
  behaviour (reading the inactive member of the storage union, a format directive
  without an argument, signed overflow).
\<close>

datatype exn = runtime_error string

datatype 'a outcome =
    Returned 'a
  | Thrown exn
  | Terminated exn
  | Undefined_Behaviour

fun bind_outcome :: "'a outcome \<Rightarrow> ('a \<Rightarrow> 'b outcome) \<Rightarrow> 'b outcome" where
  "bind_outcome (Returned v) k = k v"
| "bind_outcome (Thrown e) k = Thrown e"
| "bind_outcome (Terminated e) k = Terminated e"
| "bind_outcome Undefined_Behaviour k = Undefined_Behaviour"

text \<open>
  A function declared \<open>noexcept\<close>: an exception that would leave its body invokes
  \<open>std::terminate\<close> instead, so no caller can catch it.
\<close>

fun noexcept :: "'a outcome \<Rightarrow> 'a outcome" where
  "noexcept (Thrown e) = Terminated e"
| "noexcept (Returned v) = Returned v"
| "noexcept (Terminated e) = Terminated e"
| "noexcept Undefined_Behaviour = Undefined_Behaviour"

text \<open>
  \<open>std::sprintf\<close> restricted to the directives the header uses: \<open>%s\<close> takes the next
  argument, \<open>%%\<close> is a percent sign, every other character is copied. \<open>None\<close> stands
  for the undefined cases (an unknown directive, a missing argument).
\<close>

fun sprintf :: "string \<Rightarrow> string list \<Rightarrow> string option" where
  "sprintf [] args = Some []"
| "sprintf [c] args = (if c = CHR ''%'' then None else Some [c])"
| "sprintf (c # d # cs) args =
     (if c \<noteq> CHR ''%'' then map_option ((#) c) (sprintf (d # cs) args)
      else if d = CHR ''%'' then map_option ((#) CHR ''%'') (sprintf cs args)
      else if d = CHR ''s'' then
        (case args of
           [] \<Rightarrow> None
         | a # rest \<Rightarrow> map_option ((@) a) (sprintf cs rest))
      else None)"

text \<open>
  \<open>detail::panic\<close>, the variant compiled when \<open>NO_EXCEPTIONS\<close> is not defined: it formats
  the message, builds a \<open>std::runtime_error\<close> from it and throws it. The function is
  declared \<open>noexcept\<close>.
\<close>

definition panic_body :: "string \<Rightarrow> string list \<Rightarrow> 'a outcome" where
  "panic_body msg args =
     (case sprintf msg args of
        None \<Rightarrow> Undefined_Behaviour
      | Some buf \<Rightarrow> Thrown (runtime_error buf))"

definition panic :: "string \<Rightarrow> string list \<Rightarrow> 'a outcome" where
  "panic msg args = noexcept (panic_body msg args)"

section \<open>Storage and state\<close>

datatype NullOk = NullOk
datatype NullErr = NullErr

text \<open>The union \<open>detail::OkOrErr\<close>: which member was last constructed, and its value.
  The fields \<open>data_\<close> and \<open>state_\<close> of \<open>Result\<close> are \<open>data\<close> and \<open>state\<close> here (a name cannot
  end in an underscore).\<close>

datatype ('t, 'e) OkOrErr =
    union_uninit
  | union_ok 't
  | union_err 'e

datatype ResultState = Ok | Err | Moved | MovedOk | MovedErr

text \<open>The states of a result whose value has been moved out.\<close>

fun consumed :: "ResultState \<Rightarrow> bool" where
  "consumed Ok = False"
| "consumed Err = False"
| "consumed Moved = True"
| "consumed MovedOk = True"
| "consumed MovedErr = True"

record ('t, 'e) Result =
  data :: "('t, 'e) OkOrErr"
  state :: ResultState

text \<open>Reading \<open>data.ok\<close> and \<open>data.err\<close>; the other member is not readable.\<close>

fun read_ok :: "('t, 'e) OkOrErr \<Rightarrow> 't outcome" where
  "read_ok (union_ok v) = Returned v"
| "read_ok union_uninit = Undefined_Behaviour"
| "read_ok (union_err e) = Undefined_Behaviour"

fun read_err :: "('t, 'e) OkOrErr \<Rightarrow> 'e outcome" where
  "read_err (union_err e) = Returned e"
| "read_err union_uninit = Undefined_Behaviour"
| "read_err (union_ok v) = Undefined_Behaviour"

text \<open>The private tagged constructors \<open>Result(value, OkTag)\<close> and \<open>Result(value, ErrTag)\<close>.\<close>

definition Result_OkTag :: "'t \<Rightarrow> ('t, 'e) Result" where
  "Result_OkTag v = \<lparr>data = union_ok v, state = Ok\<rparr>"

definition Result_ErrTag :: "'e \<Rightarrow> ('t, 'e) Result" where
  "Result_ErrTag e = \<lparr>data = union_err e, state = Err\<rparr>"

text \<open>The free functions \<open>ok\<close> and \<open>err\<close>.\<close>

definition ok :: "'t \<Rightarrow> ('t, NullErr) Result" where
  "ok v = Result_OkTag v"

definition err :: "'e \<Rightarrow> (NullOk, 'e) Result" where
  "err e = Result_ErrTag e"

section \<open>Queries and extraction\<close>

text \<open>
  A member function that may change the object takes the object and returns the outcome
  of the call together with the object afterwards. Moving out of an \<open>int\<close> leaves the
  storage as it was; the model keeps the storage for every type and only the state
  records the move.
\<close>

definition is_ok :: "('t, 'e) Result \<Rightarrow> bool" where
  "is_ok r = (state r = Ok)"

definition is_err :: "('t, 'e) Result \<Rightarrow> bool" where
  "is_err r = (state r = Err)"

definition operator_bool :: "('t, 'e) Result \<Rightarrow> bool" where
  "operator_bool r = (state r = Ok)"

definition unwrap :: "('t, 'e) Result \<Rightarrow> 't outcome \<times> ('t, 'e) Result" where
  "unwrap r =
     (if state r = Ok then (read_ok (data r), r\<lparr>state := MovedOk\<rparr>)
      else (panic ''Panic: Called unwrap() on %s result!''
              [if state r = Err then ''an erroneous'' else ''a moved''], r))"

definition unwrap_or :: "('t, 'e) Result \<Rightarrow> 't \<Rightarrow> 't outcome \<times> ('t, 'e) Result" where
  "unwrap_or r optb =
     (if state r = Ok then (read_ok (data r), r\<lparr>state := MovedOk\<rparr>)
      else (Returned optb, r))"

definition unwrap_or_else ::
  "('t, 'e) Result \<Rightarrow> (unit \<Rightarrow> 't outcome) \<Rightarrow> 't outcome \<times> ('t, 'e) Result" where
  "unwrap_or_else r op =
     (if state r = Ok then (read_ok (data r), r\<lparr>state := MovedOk\<rparr>)
      else (op (), r))"

text \<open>\<open>T_init\<close> is the value of the expression \<open>T()\<close>.\<close>

definition unwrap_or_default :: "('t, 'e) Result \<Rightarrow> 't \<Rightarrow> 't outcome \<times> ('t, 'e) Result" where
  "unwrap_or_default r T_init =
     (if state r = Ok then (read_ok (data r), r\<lparr>state := MovedOk\<rparr>)
      else (Returned T_init, r))"

definition expect :: "('t, 'e) Result \<Rightarrow> string \<Rightarrow> 't outcome \<times> ('t, 'e) Result" where
  "expect r msg =
     (if state r = Ok then (read_ok (data r), r\<lparr>state := MovedOk\<rparr>)
      else (panic msg [], r))"

definition unwrap_err :: "('t, 'e) Result \<Rightarrow> 'e outcome \<times> ('t, 'e) Result" where
  "unwrap_err r =
     (if state r = Err then (read_err (data r), r\<lparr>state := MovedErr\<rparr>)
      else (panic ''Panic: Called unwrap_err() on %s result!''
              [if state r = Ok then ''an OK'' else ''a moved''], r))"

section \<open>Constructors from another result\<close>

text \<open>
  Each constructor returns the outcome of building the new object and the source
  afterwards. \<open>state\<close> is initialised from the source before the body runs. \<open>conv\<close> is
  the conversion C++ applies when the stored type is built from the source's value (the
  identity when the types agree). The copy constructor calls the non-const \<open>unwrap()\<close> on
  its const argument, so it cannot be instantiated; it has no model here.
\<close>

definition Result_move ::
  "('t, 'e) Result \<Rightarrow> ('t, 'e) Result outcome \<times> ('t, 'e) Result" where
  "Result_move result =
     (if state result = Ok then
        (case unwrap result of (x, result') \<Rightarrow>
           (bind_outcome x (\<lambda>v. Returned \<lparr>data = union_ok v, state = state result\<rparr>),
            result'))
      else
        (case unwrap_err result of (x, result') \<Rightarrow>
           (bind_outcome x (\<lambda>e. Returned \<lparr>data = union_err e, state = state result\<rparr>),
            result')))"

definition Result_from_ok ::
  "('u \<Rightarrow> 't) \<Rightarrow> ('u, NullErr) Result \<Rightarrow> ('t, 'e) Result outcome \<times> ('u, NullErr) Result" where
  "Result_from_ok conv result =
     (case unwrap result of (x, result') \<Rightarrow>
        (bind_outcome x
           (\<lambda>v. Returned \<lparr>data = union_ok (conv v), state = state result\<rparr>),
         result'))"

definition Result_from_err ::
  "('f \<Rightarrow> 'e) \<Rightarrow> (NullOk, 'f) Result \<Rightarrow> ('t, 'e) Result outcome \<times> (NullOk, 'f) Result" where
  "Result_from_err conv result =
     (case unwrap_err result of (x, result') \<Rightarrow>
        (bind_outcome x
           (\<lambda>e. Returned \<lparr>data = union_err (conv e), state = state result\<rparr>),
         result'))"

section \<open>Combinators\<close>

text \<open>
  \<open>all\<close> and \<open>any\<close> take a second result by rvalue reference and return it through the
  move constructor; they return the outcome, the object afterwards and the argument
  afterwards. The callables \<open>op\<close>, \<open>if_ok\<close>, \<open>if_err\<close> and \<open>project\<close> may themselves fail,
  so they return an outcome.
\<close>

definition all_result ::
  "('t, 'e) Result \<Rightarrow> ('u, 'e) Result
     \<Rightarrow> ('u, 'e) Result outcome \<times> ('t, 'e) Result \<times> ('u, 'e) Result" where
  "all_result r res =
     (if state r = Ok then
        (case Result_move res of (x, res') \<Rightarrow> (x, r, res'))
      else
        (case unwrap_err r of (x, r') \<Rightarrow>
           (bind_outcome x (\<lambda>e. Returned (Result_ErrTag e)), r', res)))"

definition all_then ::
  "('t, 'e) Result \<Rightarrow> (unit \<Rightarrow> ('u, 'e) Result outcome)
     \<Rightarrow> ('u, 'e) Result outcome \<times> ('t, 'e) Result" where
  "all_then r op =
     (if state r = Ok then (op (), r)
      else
        (case unwrap_err r of (x, r') \<Rightarrow>
           (bind_outcome x (\<lambda>e. Returned (Result_ErrTag e)), r')))"

definition any_result ::
  "('t, 'e) Result \<Rightarrow> ('t, 'f) Result
     \<Rightarrow> ('t, 'f) Result outcome \<times> ('t, 'e) Result \<times> ('t, 'f) Result" where
  "any_result r result =
     (if state r = Err then
        (case Result_move result of (x, result') \<Rightarrow> (x, r, result'))
      else
        (case unwrap r of (x, r') \<Rightarrow>
           (bind_outcome x (\<lambda>v. Returned (Result_OkTag v)), r', result)))"

definition any_else ::
  "('t, 'e) Result \<Rightarrow> (unit \<Rightarrow> ('t, 'f) Result outcome)
     \<Rightarrow> ('t, 'f) Result outcome \<times> ('t, 'e) Result" where
  "any_else r op =
     (if state r = Err then (op (), r)
      else
        (case unwrap r of (x, r') \<Rightarrow>
           (bind_outcome x (\<lambda>v. Returned (Result_OkTag v)), r')))"

definition match ::
  "('t, 'e) Result \<Rightarrow> ('t \<Rightarrow> 'r outcome) \<Rightarrow> ('e \<Rightarrow> 'r outcome)
     \<Rightarrow> 'r outcome \<times> ('t, 'e) Result" where
  "match r if_ok if_err =
     (if state r = Ok then
        (case unwrap r of (x, r') \<Rightarrow> (bind_outcome x if_ok, r'))
      else
        (case unwrap_err r of (x, r') \<Rightarrow> (bind_outcome x if_err, r')))"

definition map_result ::
  "('t, 'e) Result \<Rightarrow> ('t \<Rightarrow> 'u outcome) \<Rightarrow> ('u, 'e) Result outcome \<times> ('t, 'e) Result" where
  "map_result r project =
     (if state r = Ok then
        (case unwrap r of (x, r') \<Rightarrow>
           (bind_outcome x
              (\<lambda>v. bind_outcome (project v) (\<lambda>u. Returned (Result_OkTag u))), r'))
      else
        (case unwrap_err r of (x, r') \<Rightarrow>
           (bind_outcome x (\<lambda>e. Returned (Result_ErrTag e)), r')))"

definition map_err ::
  "('t, 'e) Result \<Rightarrow> ('e \<Rightarrow> 'f outcome) \<Rightarrow> ('t, 'f) Result outcome \<times> ('t, 'e) Result" where
  "map_err r project =
     (if state r = Err then
        (case unwrap_err r of (x, r') \<Rightarrow>
           (bind_outcome x
              (\<lambda>e. bind_outcome (project e) (\<lambda>f. Returned (Result_ErrTag f))), r'))
      else
        (case unwrap r of (x, r') \<Rightarrow>
           (bind_outcome x (\<lambda>v. Returned (Result_OkTag v)), r')))"

text \<open>\<open>as_ref\<close> does not change the object; a reference is modelled by the value it refers to.\<close>

definition as_ref :: "('t, 'e) Result \<Rightarrow> ('t, 'e) Result outcome" where
  "as_ref r =
     (if state r = Ok then bind_outcome (read_ok (data r)) (\<lambda>v. Returned (Result_OkTag v))
      else if state r = Err then
        bind_outcome (read_err (data r)) (\<lambda>e. Returned (Result_ErrTag e))
      else panic ''Panic: Called as_ref() on a moved result!'' [])"

section \<open>The propagation macros\<close>

text \<open>
  \<open>TRY_RESULT(expr, ok)\<close> inside a function returning \<open>Result<T2, E2>\<close>: \<open>rest\<close> is the code
  of the function after the macro, which receives the value assigned to \<open>ok\<close>; \<open>conv\<close> is
  the conversion from the failure type of \<open>expr\<close> to \<open>E2\<close> that the \<open>return\<close> applies.
\<close>

definition TRY_RESULT ::
  "('t, 'e) Result outcome \<Rightarrow> ('e \<Rightarrow> 'e2) \<Rightarrow> ('t \<Rightarrow> ('t2, 'e2) Result outcome)
     \<Rightarrow> ('t2, 'e2) Result outcome" where
  "TRY_RESULT expr conv rest =
     bind_outcome expr (\<lambda>result.
       if is_ok result then bind_outcome (fst (unwrap result)) rest
       else bind_outcome (fst (unwrap_err result))
              (\<lambda>e. fst (Result_from_err conv (err e))))"

definition TRY ::
  "('t, 'e) Result outcome \<Rightarrow> ('e \<Rightarrow> 'e2) \<Rightarrow> ('t \<Rightarrow> ('t2, 'e2) Result outcome)
     \<Rightarrow> ('t2, 'e2) Result outcome" where
  "TRY expr conv rest =
     bind_outcome expr (\<lambda>result.
       if is_ok result then bind_outcome (fst (unwrap result)) rest
       else bind_outcome (fst (unwrap_err result))
              (\<lambda>e. fst (Result_from_err conv (err e))))"

section \<open>The example program\<close>

text \<open>
  \<open>int\<close> is taken as 32 bits wide; \<open>a / b\<close> truncates towards zero and overflows only for
  \<open>INT_MIN / -1\<close>. The function \<open>sqrt\<close> of the example goes through floating point; it is
  a parameter \<open>sqrt_fn\<close> here. \<open>div_sqrt\<close> returns \<open>Result<int, std::exception>\<close>, so the
  \<open>std::runtime_error\<close> of \<open>div_safe\<close> is converted to its base class on return: that
  conversion is the parameter \<open>to_exception\<close>.
\<close>

definition INT_MIN :: int where
  "INT_MIN = - (2 ^ 31)"

definition div_safe :: "int \<Rightarrow> int \<Rightarrow> (int, exn) Result outcome" where
  "div_safe a b =
     (if b \<noteq> 0 then
        (if a = INT_MIN \<and> b = - 1 then Undefined_Behaviour
         else fst (Result_from_ok (\<lambda>x. x) (ok (a sdiv b))))
      else fst (Result_from_err (\<lambda>x. x)
                  (err (runtime_error ''Division by zero is undefined!''))))"

definition div_sqrt ::
  "(int \<Rightarrow> int outcome) \<Rightarrow> (exn \<Rightarrow> 'x) \<Rightarrow> int \<Rightarrow> int \<Rightarrow> (int, 'x) Result outcome" where
  "div_sqrt sqrt_fn to_exception a b =
     TRY (div_safe a b) to_exception
       (\<lambda>value. bind_outcome (sqrt_fn value)
          (\<lambda>root. fst (Result_from_ok (\<lambda>x. x) (ok root))))"

section \<open>Equality\<close>

text \<open>
  The header defines no comparison operator for results. Its conversion \<open>operator bool\<close> is
  not \<open>explicit\<close>, so in \<open>a == b\<close> and \<open>a != b\<close> each operand is converted to \<open>bool\<close> and the
  two booleans are compared by the built-in operator.
\<close>

definition operator_eq :: "('t, 'e) Result \<Rightarrow> ('u, 'f) Result \<Rightarrow> bool" where
  "operator_eq a b = (operator_bool a = operator_bool b)"

definition operator_ne :: "('t, 'e) Result \<Rightarrow> ('u, 'f) Result \<Rightarrow> bool" where
  "operator_ne a b = (operator_bool a \<noteq> operator_bool b)"

section \<open>Vocabulary of the statements\<close>

text \<open>
  The changes of state a single call may make: none, \<open>Ok\<close> to \<open>MovedOk\<close>, or \<open>Err\<close> to
  \<open>MovedErr\<close>.
\<close>

definition transition :: "ResultState \<Rightarrow> ResultState \<Rightarrow> bool" where
  "transition s s' =
     (if s = Ok then s' = Ok \<or> s' = MovedOk
      else if s = Err then s' = Err \<or> s' = MovedErr
      else s' = s)"

section \<open>The diagnostics\<close>

lemma sprintf_unwrap_err:
  "sprintf ''Panic: Called unwrap() on %s result!'' [''an erroneous'']
     = Some ''Panic: Called unwrap() on an erroneous result!''"
  by simp

lemma sprintf_unwrap_moved:
  "sprintf ''Panic: Called unwrap() on %s result!'' [''a moved'']
     = Some ''Panic: Called unwrap() on a moved result!''"
  by simp

lemma sprintf_unwrap_err_ok:
  "sprintf ''Panic: Called unwrap_err() on %s result!'' [''an OK'']
     = Some ''Panic: Called unwrap_err() on an OK result!''"
  by simp

lemma sprintf_unwrap_err_moved:
  "sprintf ''Panic: Called unwrap_err() on %s result!'' [''a moved'']
     = Some ''Panic: Called unwrap_err() on a moved result!''"
  by simp

section \<open>Extraction, state by state\<close>

lemma unwrap_Ok:
  "state r = Ok \<Longrightarrow> data r = union_ok v \<Longrightarrow> unwrap r = (Returned v, r\<lparr>state := MovedOk\<rparr>)"
  by (simp add: unwrap_def)

lemma unwrap_Err:
  "state r = Err \<Longrightarrow>
     unwrap r = (Terminated (runtime_error ''Panic: Called unwrap() on an erroneous result!''), r)"
  by (simp add: unwrap_def panic_def panic_body_def)

lemma unwrap_consumed:
  "consumed (state r) \<Longrightarrow>
     unwrap r = (Terminated (runtime_error ''Panic: Called unwrap() on a moved result!''), r)"
  by (cases "state r") (simp_all add: unwrap_def panic_def panic_body_def)

lemma unwrap_err_Err:
  "state r = Err \<Longrightarrow> data r = union_err e \<Longrightarrow>
     unwrap_err r = (Returned e, r\<lparr>state := MovedErr\<rparr>)"
  by (simp add: unwrap_err_def)

lemma unwrap_err_Ok:
  "state r = Ok \<Longrightarrow>
     unwrap_err r = (Terminated (runtime_error ''Panic: Called unwrap_err() on an OK result!''), r)"
  by (simp add: unwrap_err_def panic_def panic_body_def)

lemma unwrap_err_consumed:
  "consumed (state r) \<Longrightarrow>
     unwrap_err r = (Terminated (runtime_error ''Panic: Called unwrap_err() on a moved result!''), r)"
  by (cases "state r") (simp_all add: unwrap_err_def panic_def panic_body_def)

lemma unwrap_transition: "transition (state r) (state (snd (unwrap r)))"
  by (simp add: unwrap_def transition_def)

lemma unwrap_err_transition: "transition (state r) (state (snd (unwrap_err r)))"
  by (simp add: unwrap_err_def transition_def)

lemma transition_refl: "transition s s"
  by (simp add: transition_def)

lemma Result_move_transition: "transition (state r) (state (snd (Result_move r)))"
  using unwrap_transition [of r] unwrap_err_transition [of r]
  by (auto simp: Result_move_def case_prod_beta)

lemma unwrap_or_transition: "transition (state r) (state (snd (unwrap_or r optb)))"
  by (simp add: unwrap_or_def transition_def)

lemma unwrap_or_else_transition: "transition (state r) (state (snd (unwrap_or_else r op)))"
  by (simp add: unwrap_or_else_def transition_def)

lemma unwrap_or_default_transition:
  "transition (state r) (state (snd (unwrap_or_default r T_init)))"
  by (simp add: unwrap_or_default_def transition_def)

lemma expect_transition: "transition (state r) (state (snd (expect r msg)))"
  by (simp add: expect_def transition_def)

lemma match_transition: "transition (state r) (state (snd (match r if_ok if_err)))"
  using unwrap_transition [of r] unwrap_err_transition [of r]
  by (auto simp: match_def case_prod_beta)

lemma map_result_transition: "transition (state r) (state (snd (map_result r project)))"
  using unwrap_transition [of r] unwrap_err_transition [of r]
  by (auto simp: map_result_def case_prod_beta)

lemma map_err_transition: "transition (state r) (state (snd (map_err r project)))"
  using unwrap_transition [of r] unwrap_err_transition [of r]
  by (auto simp: map_err_def case_prod_beta)

lemma all_then_transition: "transition (state r) (state (snd (all_then r op)))"
  using unwrap_err_transition [of r] transition_refl [of "state r"]
  by (auto simp: all_then_def case_prod_beta)

lemma any_else_transition: "transition (state r) (state (snd (any_else r op)))"
  using unwrap_transition [of r] transition_refl [of "state r"]
  by (auto simp: any_else_def case_prod_beta)

lemma all_result_transition:
  "transition (state r) (state (fst (snd (all_result r res))))
   \<and> transition (state res) (state (snd (snd (all_result r res))))"
  using unwrap_err_transition [of r] transition_refl [of "state r"]
    transition_refl [of "state res"] Result_move_transition [of res]
  by (auto simp: all_result_def case_prod_beta)

lemma any_result_transition:
  "transition (state r) (state (fst (snd (any_result r res))))
   \<and> transition (state res) (state (snd (snd (any_result r res))))"
  using unwrap_transition [of r] transition_refl [of "state r"]
    transition_refl [of "state res"] Result_move_transition [of res]
  by (auto simp: any_result_def case_prod_beta)

lemma Result_from_ok_transition:
  "transition (state r) (state (snd (Result_from_ok conv r)))"
  using unwrap_transition [of r] by (simp add: Result_from_ok_def case_prod_beta)

lemma Result_from_err_transition:
  "transition (state r) (state (snd (Result_from_err conv r)))"
  using unwrap_err_transition [of r] by (simp add: Result_from_err_def case_prod_beta)

lemma transition_consumed: "consumed s \<Longrightarrow> transition s s' \<Longrightarrow> s' = s"
  by (cases s) (simp_all add: transition_def)

lemma expect_consumed:
  "state r \<noteq> Ok \<Longrightarrow> expect r msg = (panic msg [], r)"
  by (simp add: expect_def)

lemma panic_not_Returned: "panic msg args \<noteq> Returned v"
  by (simp add: panic_def panic_body_def split: option.splits)

lemma panic_not_Thrown: "panic msg args \<noteq> Thrown e"
  by (simp add: panic_def panic_body_def split: option.splits)

lemma unwrap_never_throws: "fst (unwrap r) \<noteq> Thrown e"
  by (cases "data r") (simp_all add: unwrap_def panic_not_Thrown)

lemma Result_from_err_Err:
  "state r = Err \<Longrightarrow> data r = union_err e \<Longrightarrow>
     fst (Result_from_err conv r) = Returned \<lparr>data = union_err (conv e), state = Err\<rparr>"
  by (simp add: Result_from_err_def unwrap_err_def)

lemma Result_from_ok_Ok:
  "state r = Ok \<Longrightarrow> data r = union_ok v \<Longrightarrow>
     fst (Result_from_ok conv r) = Returned \<lparr>data = union_ok (conv v), state = Ok\<rparr>"
  by (simp add: Result_from_ok_def unwrap_def)

lemma return_err: "fst (Result_from_err conv (err e)) = Returned (Result_ErrTag (conv e))"
  by (simp add: Result_from_err_Err err_def Result_ErrTag_def)

lemma TRY_RESULT_Err:
  "state r = Err \<Longrightarrow> data r = union_err e \<Longrightarrow>
     TRY_RESULT (Returned r) conv rest = Returned (Result_ErrTag (conv e))"
  by (simp add: TRY_RESULT_def is_ok_def unwrap_err_Err return_err)

lemma TRY_Err:
  "state r = Err \<Longrightarrow> data r = union_err e \<Longrightarrow>
     TRY (Returned r) conv rest = Returned (Result_ErrTag (conv e))"
  by (simp add: TRY_def is_ok_def unwrap_err_Err return_err)

lemma TRY_Ok:
  "state r = Ok \<Longrightarrow> data r = union_ok v \<Longrightarrow> TRY (Returned r) conv rest = rest v"
  by (simp add: TRY_def is_ok_def unwrap_Ok)

lemma div_safe_zero:
  "div_safe a 0 = Returned (Result_ErrTag (runtime_error ''Division by zero is undefined!''))"
  by (simp add: div_safe_def return_err)

lemma div_safe_example: "div_safe 10 2 = Returned (Result_OkTag 5)"
  by (simp add: div_safe_def INT_MIN_def Result_from_ok_Ok ok_def Result_OkTag_def
      signed_divide_int_def)

lemma div_sqrt_zero:
  "div_sqrt sqrt_fn to_exception a 0 =
     Returned (Result_ErrTag (to_exception (runtime_error ''Division by zero is undefined!'')))"
  by (simp add: div_sqrt_def div_safe_zero TRY_Err Result_ErrTag_def)

lemma match_Ok:
  "state r = Ok \<Longrightarrow> data r = union_ok v \<Longrightarrow>
     match r if_ok if_err = (if_ok v, r\<lparr>state := MovedOk\<rparr>)"
  by (simp add: match_def unwrap_Ok)

lemma match_Err:
  "state r = Err \<Longrightarrow> data r = union_err e \<Longrightarrow>
     match r if_ok if_err = (if_err e, r\<lparr>state := MovedErr\<rparr>)"
  by (simp add: match_def unwrap_err_Err)

lemma match_consumed:
  "consumed (state r) \<Longrightarrow>
     match r if_ok if_err =
       (Terminated (runtime_error ''Panic: Called unwrap_err() on a moved result!''), r)"
  by (cases "state r") (simp_all add: match_def unwrap_err_consumed)

lemma fallback_not_Ok:
  "state r \<noteq> Ok \<Longrightarrow>
     unwrap_or r optb = (Returned optb, r)
     \<and> unwrap_or_else r op = (op (), r)
     \<and> unwrap_or_default r T_init = (Returned T_init, r)"
  by (simp add: unwrap_or_def unwrap_or_else_def unwrap_or_default_def)

lemma extract_Ok:
  "state r = Ok \<Longrightarrow> data r = union_ok v \<Longrightarrow>
     expect r msg = (Returned v, r\<lparr>state := MovedOk\<rparr>)
     \<and> unwrap_or r optb = (Returned v, r\<lparr>state := MovedOk\<rparr>)
     \<and> unwrap_or_else r op = (Returned v, r\<lparr>state := MovedOk\<rparr>)
     \<and> unwrap_or_default r T_init = (Returned v, r\<lparr>state := MovedOk\<rparr>)"
  by (simp add: expect_def unwrap_or_def unwrap_or_else_def unwrap_or_default_def)

lemma operator_bool_is_ok: "operator_bool r = is_ok r"
  by (simp add: operator_bool_def is_ok_def)

section \<open>Construction and extraction\<close>

text \<open>
  C1. For every value \<open>v\<close>, \<open>ok(v).is_ok()\<close> holds and, after the conversion to a
  \<open>Result<T, E>\<close>, \<open>unwrap()\<close> returns \<open>v\<close>; for every \<open>e\<close>, \<open>err(e).is_err()\<close> holds and
  \<open>unwrap_err()\<close> returns \<open>e\<close>, before and after the conversion.
\<close>

theorem ok_err_construct_unwrap:
  "is_ok (ok v)
   \<and> bind_outcome (fst (Result_from_ok (\<lambda>x. x) (ok v))) (\<lambda>r. fst (unwrap r)) = Returned v
   \<and> is_err (err e)
   \<and> fst (unwrap_err (err e)) = Returned e
   \<and> bind_outcome (fst (Result_from_err (\<lambda>x. x) (err e))) (\<lambda>r. fst (unwrap_err r)) = Returned e"
  by (simp add: is_ok_def is_err_def ok_def err_def Result_OkTag_def Result_ErrTag_def
      Result_from_ok_def Result_from_err_def unwrap_def unwrap_err_def)


theorem ok_err_construct_unwrap_witness:
  "is_ok (ok (10::int))
   \<and> bind_outcome (fst (Result_from_ok (\<lambda>x. x) (ok (10::int)) ::
          (int, int) Result outcome \<times> (int, NullErr) Result)) (\<lambda>r. fst (unwrap r)) = Returned 10
   \<and> is_err (err (10::int))
   \<and> fst (unwrap_err (err (10::int))) = Returned 10
   \<and> bind_outcome (fst (Result_from_err (\<lambda>x. x) (err (10::int)) ::
          (int, int) Result outcome \<times> (NullOk, int) Result)) (\<lambda>r. fst (unwrap_err r)) = Returned 10"
  by (rule ok_err_construct_unwrap)

section \<open>State transitions\<close>

text \<open>
  C2, as the code has it. A call changes the state of a result only from \<open>Ok\<close> to \<open>MovedOk\<close>
  or from \<open>Err\<close> to \<open>MovedErr\<close>, and leaves every moved state as it is: this holds for each
  member function, for the argument of \<open>all\<close> and \<open>any\<close> and for the source of each
  constructor. A successful extraction does make the change: \<open>unwrap\<close>, \<open>expect\<close> and the
  fallback extractors on a result in state \<open>Ok\<close> return the value and leave the state
  \<open>MovedOk\<close>, \<open>unwrap_err\<close> on a result in state \<open>Err\<close> returns the failure and leaves the
  state \<open>MovedErr\<close>, and a second \<open>unwrap\<close> or \<open>unwrap_err\<close> then goes to \<open>panic\<close>. On every
  moved result \<open>unwrap\<close>, \<open>unwrap_err\<close> and \<open>expect\<close> go to \<open>panic\<close> and return no value. The
  fallback extractors \<open>unwrap_or\<close>, \<open>unwrap_or_else\<close> and \<open>unwrap_or_default\<close> do not: on a
  moved result they return the fallback and leave the result as it is.
\<close>

theorem state_moves_forward_only:
  fixes r :: "('t, 'e) Result"
    and res :: "('u, 'e) Result"
    and alt :: "('t, 'f) Result"
    and src_ok :: "('t, NullErr) Result"
    and src_err :: "(NullOk, 'e) Result"
    and if_ok :: "'t \<Rightarrow> 'r outcome"
  shows
  "(consumed (state r) \<longrightarrow>
        unwrap r =
          (Terminated (runtime_error ''Panic: Called unwrap() on a moved result!''), r)
        \<and> unwrap_err r =
          (Terminated (runtime_error ''Panic: Called unwrap_err() on a moved result!''), r)
        \<and> expect r msg = (panic msg [], r)
        \<and> (\<forall>v. panic msg [] \<noteq> (Returned v :: 't outcome))
        \<and> unwrap_or r optb = (Returned optb, r)
        \<and> unwrap_or_else r op = (op (), r)
        \<and> unwrap_or_default r T_init = (Returned T_init, r))
   \<and> (state r = Ok \<and> data r = union_ok v \<longrightarrow>
        unwrap r = (Returned v, r\<lparr>state := MovedOk\<rparr>)
        \<and> expect r msg = (Returned v, r\<lparr>state := MovedOk\<rparr>)
        \<and> unwrap_or r optb = (Returned v, r\<lparr>state := MovedOk\<rparr>)
        \<and> unwrap_or_else r op = (Returned v, r\<lparr>state := MovedOk\<rparr>)
        \<and> unwrap_or_default r T_init = (Returned v, r\<lparr>state := MovedOk\<rparr>)
        \<and> unwrap (snd (unwrap r)) =
          (Terminated (runtime_error ''Panic: Called unwrap() on a moved result!''),
           r\<lparr>state := MovedOk\<rparr>)
        \<and> unwrap_err (snd (unwrap r)) =
          (Terminated (runtime_error ''Panic: Called unwrap_err() on a moved result!''),
           r\<lparr>state := MovedOk\<rparr>))
   \<and> (state r = Err \<and> data r = union_err e \<longrightarrow>
        unwrap_err r = (Returned e, r\<lparr>state := MovedErr\<rparr>)
        \<and> unwrap_err (snd (unwrap_err r)) =
          (Terminated (runtime_error ''Panic: Called unwrap_err() on a moved result!''),
           r\<lparr>state := MovedErr\<rparr>)
        \<and> unwrap (snd (unwrap_err r)) =
          (Terminated (runtime_error ''Panic: Called unwrap() on a moved result!''),
           r\<lparr>state := MovedErr\<rparr>))
   \<and> transition (state r) (state (snd (unwrap r)))
   \<and> transition (state r) (state (snd (unwrap_err r)))
   \<and> transition (state r) (state (snd (expect r msg)))
   \<and> transition (state r) (state (snd (unwrap_or r optb)))
   \<and> transition (state r) (state (snd (unwrap_or_else r op)))
   \<and> transition (state r) (state (snd (unwrap_or_default r T_init)))
   \<and> transition (state r) (state (snd (match r if_ok if_err)))
   \<and> transition (state r) (state (snd (map_result r project)))
   \<and> transition (state r) (state (snd (map_err r project_err)))
   \<and> transition (state r) (state (fst (snd (all_result r res))))
   \<and> transition (state res) (state (snd (snd (all_result r res))))
   \<and> transition (state r) (state (snd (all_then r op_all)))
   \<and> transition (state r) (state (fst (snd (any_result r alt))))
   \<and> transition (state alt) (state (snd (snd (any_result r alt))))
   \<and> transition (state r) (state (snd (any_else r op_any)))
   \<and> transition (state r) (state (snd (Result_move r)))
   \<and> transition (state src_ok)
        (state (snd (Result_from_ok conv_ok src_ok ::
           ('t, 'e) Result outcome \<times> ('t, NullErr) Result)))
   \<and> transition (state src_err)
        (state (snd (Result_from_err conv_err src_err ::
           ('t, 'e) Result outcome \<times> (NullOk, 'e) Result)))"
proof -
  have not_ok: "consumed (state r) \<Longrightarrow> state r \<noteq> Ok"
    by (cases "state r") simp_all
  then have moved: "consumed (state r) \<longrightarrow>
        unwrap r =
          (Terminated (runtime_error ''Panic: Called unwrap() on a moved result!''), r)
        \<and> unwrap_err r =
          (Terminated (runtime_error ''Panic: Called unwrap_err() on a moved result!''), r)
        \<and> expect r msg = (panic msg [], r)
        \<and> (\<forall>v. panic msg [] \<noteq> (Returned v :: 't outcome))
        \<and> unwrap_or r optb = (Returned optb, r)
        \<and> unwrap_or_else r op = (op (), r)
        \<and> unwrap_or_default r T_init = (Returned T_init, r)"
    by (simp add: unwrap_consumed unwrap_err_consumed expect_consumed panic_not_Returned
        fallback_not_Ok)
  have live_ok: "state r = Ok \<and> data r = union_ok v \<longrightarrow>
        unwrap r = (Returned v, r\<lparr>state := MovedOk\<rparr>)
        \<and> expect r msg = (Returned v, r\<lparr>state := MovedOk\<rparr>)
        \<and> unwrap_or r optb = (Returned v, r\<lparr>state := MovedOk\<rparr>)
        \<and> unwrap_or_else r op = (Returned v, r\<lparr>state := MovedOk\<rparr>)
        \<and> unwrap_or_default r T_init = (Returned v, r\<lparr>state := MovedOk\<rparr>)
        \<and> unwrap (snd (unwrap r)) =
          (Terminated (runtime_error ''Panic: Called unwrap() on a moved result!''),
           r\<lparr>state := MovedOk\<rparr>)
        \<and> unwrap_err (snd (unwrap r)) =
          (Terminated (runtime_error ''Panic: Called unwrap_err() on a moved result!''),
           r\<lparr>state := MovedOk\<rparr>)"
    by (simp add: unwrap_Ok extract_Ok unwrap_consumed unwrap_err_consumed)
  have live_err: "state r = Err \<and> data r = union_err e \<longrightarrow>
        unwrap_err r = (Returned e, r\<lparr>state := MovedErr\<rparr>)
        \<and> unwrap_err (snd (unwrap_err r)) =
          (Terminated (runtime_error ''Panic: Called unwrap_err() on a moved result!''),
           r\<lparr>state := MovedErr\<rparr>)
        \<and> unwrap (snd (unwrap_err r)) =
          (Terminated (runtime_error ''Panic: Called unwrap() on a moved result!''),
           r\<lparr>state := MovedErr\<rparr>)"
    by (simp add: unwrap_err_Err unwrap_consumed unwrap_err_consumed)
  show ?thesis
    by (intro conjI moved live_ok live_err unwrap_transition unwrap_err_transition
        expect_transition unwrap_or_transition unwrap_or_else_transition
        unwrap_or_default_transition match_transition map_result_transition
        map_err_transition all_result_transition [THEN conjunct1]
        all_result_transition [THEN conjunct2] all_then_transition
        any_result_transition [THEN conjunct1] any_result_transition [THEN conjunct2]
        any_else_transition Result_move_transition Result_from_ok_transition
        Result_from_err_transition)
qed

theorem state_moves_forward_only_witness:
  "consumed (state (\<lparr>data = union_ok (5::int), state = MovedOk\<rparr> :: (int, int) Result))
   \<and> unwrap (\<lparr>data = union_ok (5::int), state = MovedOk\<rparr> :: (int, int) Result) =
       (Terminated (runtime_error ''Panic: Called unwrap() on a moved result!''),
        \<lparr>data = union_ok 5, state = MovedOk\<rparr>)
   \<and> unwrap_err (\<lparr>data = union_ok (5::int), state = MovedOk\<rparr> :: (int, int) Result) =
       (Terminated (runtime_error ''Panic: Called unwrap_err() on a moved result!''),
        \<lparr>data = union_ok 5, state = MovedOk\<rparr>)
   \<and> unwrap_or (\<lparr>data = union_ok (5::int), state = MovedOk\<rparr> :: (int, int) Result) 99 =
       (Returned 99, \<lparr>data = union_ok 5, state = MovedOk\<rparr>)
   \<and> unwrap_or_else (\<lparr>data = union_ok (5::int), state = MovedOk\<rparr> :: (int, int) Result)
         (\<lambda>u. Returned 7) =
       (Returned 7, \<lparr>data = union_ok 5, state = MovedOk\<rparr>)
   \<and> state (\<lparr>data = union_ok (5::int), state = Ok\<rparr> :: (int, int) Result) = Ok
   \<and> data (\<lparr>data = union_ok (5::int), state = Ok\<rparr> :: (int, int) Result) = union_ok 5
   \<and> unwrap (\<lparr>data = union_ok (5::int), state = Ok\<rparr> :: (int, int) Result) =
       (Returned 5, \<lparr>data = union_ok 5, state = MovedOk\<rparr>)
   \<and> unwrap (snd (unwrap (\<lparr>data = union_ok (5::int), state = Ok\<rparr> :: (int, int) Result))) =
       (Terminated (runtime_error ''Panic: Called unwrap() on a moved result!''),
        \<lparr>data = union_ok 5, state = MovedOk\<rparr>)
   \<and> state (\<lparr>data = union_err (3::int), state = Err\<rparr> :: (int, int) Result) = Err
   \<and> data (\<lparr>data = union_err (3::int), state = Err\<rparr> :: (int, int) Result) = union_err 3
   \<and> unwrap_err (\<lparr>data = union_err (3::int), state = Err\<rparr> :: (int, int) Result) =
       (Returned 3, \<lparr>data = union_err 3, state = MovedErr\<rparr>)
   \<and> unwrap_err (snd (unwrap_err (\<lparr>data = union_err (3::int), state = Err\<rparr> :: (int, int) Result))) =
       (Terminated (runtime_error ''Panic: Called unwrap_err() on a moved result!''),
        \<lparr>data = union_err 3, state = MovedErr\<rparr>)"
proof -
  have c: "consumed (state (\<lparr>data = union_ok (5::int), state = MovedOk\<rparr> :: (int, int) Result))"
    by simp
  have k: "state (\<lparr>data = union_ok (5::int), state = Ok\<rparr> :: (int, int) Result) = Ok
           \<and> data (\<lparr>data = union_ok (5::int), state = Ok\<rparr> :: (int, int) Result) = union_ok 5"
    by simp
  have f: "state (\<lparr>data = union_err (3::int), state = Err\<rparr> :: (int, int) Result) = Err
           \<and> data (\<lparr>data = union_err (3::int), state = Err\<rparr> :: (int, int) Result)
               = union_err 3"
    by simp
  note m = state_moves_forward_only
         [where r = "\<lparr>data = union_ok (5::int), state = MovedOk\<rparr> :: (int, int) Result"
            and optb = 99 and op = "\<lambda>u. Returned 7" and msg = "''m''" and T_init = 0,
          THEN conjunct1, rule_format, OF c]
  note l = state_moves_forward_only
         [where r = "\<lparr>data = union_ok (5::int), state = Ok\<rparr> :: (int, int) Result"
            and v = 5 and msg = "''m''" and optb = 99 and op = "\<lambda>u. Returned 7"
            and T_init = 0,
          THEN conjunct2, THEN conjunct1, rule_format, OF k]
  note g = state_moves_forward_only
         [where r = "\<lparr>data = union_err (3::int), state = Err\<rparr> :: (int, int) Result"
            and e = 3,
          THEN conjunct2, THEN conjunct2, THEN conjunct1, rule_format, OF f]
  have m': "unwrap (\<lparr>data = union_ok (5::int), state = MovedOk\<rparr> :: (int, int) Result) =
       (Terminated (runtime_error ''Panic: Called unwrap() on a moved result!''),
        \<lparr>data = union_ok 5, state = MovedOk\<rparr>)
   \<and> unwrap_err (\<lparr>data = union_ok (5::int), state = MovedOk\<rparr> :: (int, int) Result) =
       (Terminated (runtime_error ''Panic: Called unwrap_err() on a moved result!''),
        \<lparr>data = union_ok 5, state = MovedOk\<rparr>)
   \<and> unwrap_or (\<lparr>data = union_ok (5::int), state = MovedOk\<rparr> :: (int, int) Result) 99 =
       (Returned 99, \<lparr>data = union_ok 5, state = MovedOk\<rparr>)
   \<and> unwrap_or_else (\<lparr>data = union_ok (5::int), state = MovedOk\<rparr> :: (int, int) Result)
         (\<lambda>u. Returned 7) =
       (Returned 7, \<lparr>data = union_ok 5, state = MovedOk\<rparr>)"
    using m by blast
  have l': "unwrap (\<lparr>data = union_ok (5::int), state = Ok\<rparr> :: (int, int) Result) =
       (Returned 5, \<lparr>data = union_ok 5, state = MovedOk\<rparr>)
   \<and> unwrap (snd (unwrap (\<lparr>data = union_ok (5::int), state = Ok\<rparr> :: (int, int) Result))) =
       (Terminated (runtime_error ''Panic: Called unwrap() on a moved result!''),
        \<lparr>data = union_ok 5, state = MovedOk\<rparr>)"
    using l [THEN conjunct1]
      l [THEN conjunct2, THEN conjunct2, THEN conjunct2, THEN conjunct2, THEN conjunct2,
         THEN conjunct1]
    by simp
  have g': "unwrap_err (\<lparr>data = union_err (3::int), state = Err\<rparr> :: (int, int) Result) =
       (Returned 3, \<lparr>data = union_err 3, state = MovedErr\<rparr>)
   \<and> unwrap_err (snd (unwrap_err (\<lparr>data = union_err (3::int), state = Err\<rparr> :: (int, int) Result))) =
       (Terminated (runtime_error ''Panic: Called unwrap_err() on a moved result!''),
        \<lparr>data = union_err 3, state = MovedErr\<rparr>)"
    using g [THEN conjunct1] g [THEN conjunct2, THEN conjunct1]
    by simp
  show ?thesis
    using c k f m' l' g' by blast
qed

theorem consumed_fallback_counterexample:
  "consumed (state (snd (unwrap (Result_OkTag (5::int) :: (int, int) Result))))
   \<and> fst (unwrap_or (snd (unwrap (Result_OkTag (5::int) :: (int, int) Result))) 99)
       = Returned 99
   \<and> fst (unwrap_or_else (snd (unwrap (Result_OkTag (5::int) :: (int, int) Result)))
            (\<lambda>u. Returned 7))
       = Returned 7
   \<and> fst (unwrap_or_default (snd (unwrap (Result_OkTag (5::int) :: (int, int) Result))) 0)
       = Returned 0"
  by (simp add: unwrap_def unwrap_or_def unwrap_or_else_def unwrap_or_default_def
      Result_OkTag_def)

section \<open>The failure of unwrap\<close>

text \<open>
  C3. \<open>unwrap()\<close> on a result in state \<open>Err\<close>, and on one already moved, formats the
  diagnostic and throws it as a \<open>std::runtime_error\<close> inside \<open>panic\<close>; \<open>panic\<close> is declared
  \<open>noexcept\<close>, so the exception does not reach the caller: the call ends in
  \<open>std::terminate\<close>.
\<close>

theorem unwrap_wrong_side_terminates:
  "unwrap (Result_ErrTag (10::int) :: (int, int) Result) =
     (Terminated (runtime_error ''Panic: Called unwrap() on an erroneous result!''),
      Result_ErrTag 10)
   \<and> (panic_body ''Panic: Called unwrap() on %s result!'' [''an erroneous''] :: int outcome) =
     Thrown (runtime_error ''Panic: Called unwrap() on an erroneous result!'')
   \<and> fst (unwrap (snd (unwrap (Result_OkTag (10::int) :: (int, int) Result)))) =
     Terminated (runtime_error ''Panic: Called unwrap() on a moved result!'')"
  by (simp add: unwrap_def Result_ErrTag_def Result_OkTag_def panic_def panic_body_def)

section \<open>Propagation\<close>

text \<open>
  C4. \<open>TRY\<close> (and \<open>TRY_RESULT\<close>) applied to an expression whose value is in state \<open>Err\<close> makes
  the enclosing function return a result in state \<open>Err\<close> carrying that failure value,
  converted to the failure type of the function, whatever the code after the macro is:
  that code is not run. \<open>div_safe\<close> with divisor 0 returns the failure, and \<open>div_sqrt\<close> with
  divisor 0 returns that failure for every square-root function.
\<close>

theorem try_returns_failure_at_once:
  fixes r :: "('t, 'e) Result"
    and rest :: "'t \<Rightarrow> ('t2, 'e2) Result outcome"
    and to_exception :: "exn \<Rightarrow> 'x"
  shows
  "(state r = Err \<and> data r = union_err e \<longrightarrow>
      TRY (Returned r) conv rest = Returned (Result_ErrTag (conv e))
      \<and> TRY_RESULT (Returned r) conv rest = Returned (Result_ErrTag (conv e)))
   \<and> div_safe a 0 =
       Returned (Result_ErrTag (runtime_error ''Division by zero is undefined!''))
   \<and> div_sqrt sqrt_fn to_exception a 0 =
       Returned (Result_ErrTag
         (to_exception (runtime_error ''Division by zero is undefined!'')))"
  by (simp add: TRY_Err TRY_RESULT_Err div_safe_zero div_sqrt_zero)

theorem try_returns_failure_at_once_witness:
  "state (Result_ErrTag (3::int) :: (int, int) Result) = Err
   \<and> data (Result_ErrTag (3::int) :: (int, int) Result) = union_err 3
   \<and> TRY (Returned (Result_ErrTag (3::int) :: (int, int) Result)) (\<lambda>x. x)
        (\<lambda>v. Undefined_Behaviour :: (int, int) Result outcome)
       = Returned (Result_ErrTag 3)
   \<and> div_sqrt (\<lambda>v. Undefined_Behaviour) (\<lambda>x. x) 10 0 =
       Returned (Result_ErrTag (runtime_error ''Division by zero is undefined!''))"
proof -
  have h: "state (Result_ErrTag (3::int) :: (int, int) Result) = Err
           \<and> data (Result_ErrTag (3::int) :: (int, int) Result) = union_err 3"
    by (simp add: Result_ErrTag_def)
  note t = try_returns_failure_at_once
             [where r = "Result_ErrTag (3::int) :: (int, int) Result" and e = "3::int"
                and conv = "\<lambda>x::int. x"
                and rest = "\<lambda>v::int. Undefined_Behaviour :: (int, int) Result outcome"
                and sqrt_fn = "\<lambda>v. Undefined_Behaviour" and to_exception = "\<lambda>x. x"
                and a = 10]
  from t [THEN conjunct1, rule_format, OF h] t [THEN conjunct2, THEN conjunct2] h
  show ?thesis by blast
qed

section \<open>unwrap-or-else\<close>

text \<open>
  C5, as the code has it. On a result in state \<open>Ok\<close>, \<open>unwrap_or_else(op)\<close> returns the stored
  value and moves the result to \<open>MovedOk\<close>. In every other state it returns \<open>op()\<close>: \<open>op\<close> is
  called with no argument, the stored failure is not passed to it, and the result is left
  as it was, so that in state \<open>Err\<close> a later \<open>unwrap_err()\<close> still returns the failure.
\<close>

theorem unwrap_or_else_calls_nullary_op:
  fixes r :: "('t, 'e) Result"
  shows
  "(state r = Ok \<and> data r = union_ok v \<longrightarrow>
      unwrap_or_else r op = (Returned v, r\<lparr>state := MovedOk\<rparr>))
   \<and> (state r \<noteq> Ok \<longrightarrow> unwrap_or_else r op = (op (), r))
   \<and> (state r = Err \<and> data r = union_err e \<longrightarrow>
        fst (unwrap_err (snd (unwrap_or_else r op))) = Returned e)"
  by (simp add: unwrap_or_else_def unwrap_err_def)

theorem unwrap_or_else_calls_nullary_op_witness:
  "state (Result_ErrTag (3::int) :: (int, int) Result) \<noteq> Ok
   \<and> unwrap_or_else (Result_ErrTag (3::int) :: (int, int) Result) (\<lambda>u. Returned 7)
       = (Returned 7, Result_ErrTag 3)
   \<and> state (Result_OkTag (4::int) :: (int, int) Result) = Ok
   \<and> unwrap_or_else (Result_OkTag (4::int) :: (int, int) Result) (\<lambda>u. Returned 7)
       = (Returned 4, \<lparr>data = union_ok 4, state = MovedOk\<rparr>)"
proof -
  have h: "state (Result_ErrTag (3::int) :: (int, int) Result) \<noteq> Ok"
    by (simp add: Result_ErrTag_def)
  have g: "state (Result_OkTag (4::int) :: (int, int) Result) = Ok
           \<and> data (Result_OkTag (4::int) :: (int, int) Result) = union_ok 4"
    by (simp add: Result_OkTag_def)
  from unwrap_or_else_calls_nullary_op
         [where r = "Result_ErrTag (3::int) :: (int, int) Result"
            and op = "\<lambda>u. Returned (7::int)",
          THEN conjunct2, THEN conjunct1, rule_format, OF h]
       unwrap_or_else_calls_nullary_op
         [where r = "Result_OkTag (4::int) :: (int, int) Result" and v = 4
            and op = "\<lambda>u. Returned (7::int)",
          THEN conjunct1, rule_format, OF g]
       h g
  show ?thesis by (simp add: Result_OkTag_def)
qed

theorem unwrap_or_else_counterexample:
  "unwrap_or_else (Result_ErrTag (3::int) :: (int, int) Result) (\<lambda>u. Returned 7)
     = (Returned 7, Result_ErrTag 3)
   \<and> unwrap_or_else (Result_ErrTag (4::int) :: (int, int) Result) (\<lambda>u. Returned 7)
     = (Returned 7, Result_ErrTag 4)
   \<and> state (snd (unwrap_or_else (Result_ErrTag (3::int) :: (int, int) Result)
        (\<lambda>u. Returned 7))) = Err
   \<and> fst (unwrap_err (snd (unwrap_or_else (Result_ErrTag (3::int) :: (int, int) Result)
        (\<lambda>u. Returned 7)))) = Returned 3"
  by (simp add: unwrap_or_else_def unwrap_err_def Result_ErrTag_def)

section \<open>The queries\<close>

text \<open>
  C6, as the code has it. \<open>is_ok()\<close> and \<open>is_err()\<close> read the state only and leave the result
  as it is; \<open>is_ok()\<close> holds exactly in state \<open>Ok\<close> and \<open>is_err()\<close> exactly in state \<open>Err\<close>. On a
  moved result both are false: after a successful \<open>unwrap()\<close> the state is \<open>MovedOk\<close> and
  \<open>is_ok()\<close> is false, after a successful \<open>unwrap_err()\<close> the state is \<open>MovedErr\<close> and
  \<open>is_err()\<close> is false.
\<close>

theorem queries_true_only_before_consumption:
  fixes r :: "('t, 'e) Result"
  shows
  "is_ok r = (state r = Ok)
   \<and> is_err r = (state r = Err)
   \<and> (consumed (state r) \<longrightarrow> \<not> is_ok r \<and> \<not> is_err r)
   \<and> (fst (unwrap r) = Returned v \<longrightarrow>
        state (snd (unwrap r)) = MovedOk
        \<and> \<not> is_ok (snd (unwrap r)) \<and> \<not> is_err (snd (unwrap r)))
   \<and> (fst (unwrap_err r) = Returned e \<longrightarrow>
        state (snd (unwrap_err r)) = MovedErr
        \<and> \<not> is_ok (snd (unwrap_err r)) \<and> \<not> is_err (snd (unwrap_err r)))"
proof -
  have a: "consumed (state r) \<longrightarrow> \<not> is_ok r \<and> \<not> is_err r"
    by (cases "state r") (simp_all add: is_ok_def is_err_def)
  have b: "fst (unwrap r) = Returned v \<longrightarrow>
        state (snd (unwrap r)) = MovedOk
        \<and> \<not> is_ok (snd (unwrap r)) \<and> \<not> is_err (snd (unwrap r))"
    by (simp add: unwrap_def is_ok_def is_err_def panic_not_Returned)
  have c: "fst (unwrap_err r) = Returned e \<longrightarrow>
        state (snd (unwrap_err r)) = MovedErr
        \<and> \<not> is_ok (snd (unwrap_err r)) \<and> \<not> is_err (snd (unwrap_err r))"
    by (simp add: unwrap_err_def is_ok_def is_err_def panic_not_Returned)
  show ?thesis using a b c by (simp add: is_ok_def is_err_def)
qed

theorem queries_true_only_before_consumption_witness:
  "fst (unwrap (Result_OkTag (10::int) :: (int, int) Result)) = Returned 10
   \<and> state (snd (unwrap (Result_OkTag (10::int) :: (int, int) Result))) = MovedOk
   \<and> \<not> is_ok (snd (unwrap (Result_OkTag (10::int) :: (int, int) Result)))
   \<and> \<not> is_err (snd (unwrap (Result_OkTag (10::int) :: (int, int) Result)))"
proof -
  have h: "fst (unwrap (Result_OkTag (10::int) :: (int, int) Result)) = Returned 10"
    by (simp add: unwrap_def Result_OkTag_def)
  from queries_true_only_before_consumption
         [where r = "Result_OkTag (10::int) :: (int, int) Result" and v = 10,
          THEN conjunct2, THEN conjunct2, THEN conjunct2, THEN conjunct1, rule_format, OF h]
       h
  show ?thesis by blast
qed

theorem is_ok_after_unwrap_counterexample:
  "is_ok (Result_OkTag (10::int) :: (int, int) Result)
   \<and> state (snd (unwrap (Result_OkTag (10::int) :: (int, int) Result))) = MovedOk
   \<and> is_ok (snd (unwrap (Result_OkTag (10::int) :: (int, int) Result))) = False
   \<and> is_err (Result_ErrTag (10::int) :: (int, int) Result)
   \<and> state (snd (unwrap_err (Result_ErrTag (10::int) :: (int, int) Result))) = MovedErr
   \<and> is_err (snd (unwrap_err (Result_ErrTag (10::int) :: (int, int) Result))) = False"
  by (simp add: is_ok_def is_err_def unwrap_def unwrap_err_def Result_OkTag_def
      Result_ErrTag_def)

section \<open>unwrap-or on a failure\<close>

text \<open>
  C7, as the code has it. On a result in state \<open>Err\<close>, \<open>unwrap_or(optb)\<close> returns \<open>optb\<close> and
  leaves the result unchanged in state \<open>Err\<close>: a later \<open>unwrap_err()\<close> returns the failure
  value. Only in state \<open>Ok\<close> does \<open>unwrap_or\<close> move the result, to \<open>MovedOk\<close>.
\<close>

theorem unwrap_or_keeps_failure:
  fixes r :: "('t, 'e) Result"
  shows
  "(state r = Err \<longrightarrow> unwrap_or r optb = (Returned optb, r))
   \<and> (state r = Err \<and> data r = union_err e \<longrightarrow>
        unwrap_err (snd (unwrap_or r optb)) = (Returned e, r\<lparr>state := MovedErr\<rparr>))
   \<and> (state r = Ok \<and> data r = union_ok v \<longrightarrow>
        unwrap_or r optb = (Returned v, r\<lparr>state := MovedOk\<rparr>))"
  by (simp add: unwrap_or_def unwrap_err_def)

theorem unwrap_or_keeps_failure_witness:
  "state (Result_ErrTag (3::int) :: (int, int) Result) = Err
   \<and> unwrap_or (Result_ErrTag (3::int) :: (int, int) Result) 99
       = (Returned 99, Result_ErrTag 3)"
proof -
  have h: "state (Result_ErrTag (3::int) :: (int, int) Result) = Err"
    by (simp add: Result_ErrTag_def)
  from unwrap_or_keeps_failure
         [where r = "Result_ErrTag (3::int) :: (int, int) Result" and optb = 99,
          THEN conjunct1, rule_format, OF h] h
  show ?thesis by blast
qed

theorem unwrap_or_counterexample:
  "unwrap_or (Result_ErrTag (3::int) :: (int, int) Result) 99
     = (Returned 99, Result_ErrTag 3)
   \<and> state (snd (unwrap_or (Result_ErrTag (3::int) :: (int, int) Result) 99)) = Err
   \<and> consumed (state (snd (unwrap_or (Result_ErrTag (3::int) :: (int, int) Result) 99)))
       = False
   \<and> fst (unwrap_err (snd (unwrap_or (Result_ErrTag (3::int) :: (int, int) Result) 99)))
       = Returned 3"
  by (simp add: unwrap_or_def unwrap_err_def Result_ErrTag_def)

section \<open>match\<close>

text \<open>
  C8. \<open>match(if_ok, if_err)\<close> on a result in state \<open>Ok\<close> returns \<open>if_ok\<close> of the stored value,
  and on a result in state \<open>Err\<close> returns \<open>if_err\<close> of the stored failure; the other callable
  has no part in the outcome. On \<open>Result<int, int> result = err(10)\<close> the outcome is that
  of \<open>if_err(10)\<close>, whatever \<open>if_ok\<close> is.
\<close>

theorem match_dispatches_on_state:
  fixes r :: "('t, 'e) Result"
    and if_ok :: "'t \<Rightarrow> 'r outcome"
    and on_ok :: "int \<Rightarrow> 'r outcome"
  shows
  "(state r = Ok \<and> data r = union_ok v \<longrightarrow>
      match r if_ok if_err = (if_ok v, r\<lparr>state := MovedOk\<rparr>))
   \<and> (state r = Err \<and> data r = union_err e \<longrightarrow>
      match r if_ok if_err = (if_err e, r\<lparr>state := MovedErr\<rparr>))
   \<and> bind_outcome (fst (Result_from_err (\<lambda>x. x) (err (10::int)) ::
          (int, int) Result outcome \<times> (NullOk, int) Result))
        (\<lambda>result. fst (match result on_ok on_err)) = on_err 10"
  by (simp add: match_Ok match_Err return_err Result_ErrTag_def)

theorem match_dispatches_on_state_witness:
  "state (Result_ErrTag (10::int) :: (int, int) Result) = Err
   \<and> data (Result_ErrTag (10::int) :: (int, int) Result) = union_err 10
   \<and> match (Result_ErrTag (10::int) :: (int, int) Result)
        (\<lambda>x. Undefined_Behaviour) (\<lambda>e. Returned (e = 10))
       = (Returned True, \<lparr>data = union_err 10, state = MovedErr\<rparr>)
   \<and> state (Result_OkTag (10::int) :: (int, int) Result) = Ok
   \<and> data (Result_OkTag (10::int) :: (int, int) Result) = union_ok 10
   \<and> match (Result_OkTag (10::int) :: (int, int) Result)
        (\<lambda>x. Returned (x = 10)) (\<lambda>e. Undefined_Behaviour)
       = (Returned True, \<lparr>data = union_ok 10, state = MovedOk\<rparr>)"
proof -
  have h: "state (Result_ErrTag (10::int) :: (int, int) Result) = Err
           \<and> data (Result_ErrTag (10::int) :: (int, int) Result) = union_err 10"
    by (simp add: Result_ErrTag_def)
  have g: "state (Result_OkTag (10::int) :: (int, int) Result) = Ok
           \<and> data (Result_OkTag (10::int) :: (int, int) Result) = union_ok 10"
    by (simp add: Result_OkTag_def)
  from match_dispatches_on_state
         [where r = "Result_ErrTag (10::int) :: (int, int) Result" and e = 10
            and if_ok = "\<lambda>x. Undefined_Behaviour" and if_err = "\<lambda>e. Returned (e = 10)",
          THEN conjunct2, THEN conjunct1, rule_format, OF h]
       match_dispatches_on_state
         [where r = "Result_OkTag (10::int) :: (int, int) Result" and v = 10
            and if_ok = "\<lambda>x. Returned (x = 10)" and if_err = "\<lambda>e. Undefined_Behaviour",
          THEN conjunct1, rule_format, OF g]
       h g
  show ?thesis by (simp add: Result_ErrTag_def Result_OkTag_def)
qed

section \<open>Equality of results\<close>

text \<open>
  C9, as the code has it. \<open>a == b\<close> on two results compares \<open>is_ok()\<close> of the operands and
  nothing else: it holds iff both are in state \<open>Ok\<close> or neither is, whatever values they
  store, and \<open>a != b\<close> is its negation. A result in state \<open>Ok\<close> and one in state \<open>Err\<close> are
  always unequal, and \<open>ok(10) == ok(10)\<close>, \<open>err(10) == err(10)\<close> and \<open>ok(10) != err(10)\<close> hold.
\<close>

theorem equality_compares_is_ok_only:
  fixes a :: "('t, 'e) Result"
    and b :: "('u, 'f) Result"
  shows
  "operator_eq a b = (is_ok a = is_ok b)
   \<and> operator_ne a b = (\<not> operator_eq a b)
   \<and> (state a = Ok \<and> state b = Ok \<longrightarrow> operator_eq a b)
   \<and> (state a \<noteq> Ok \<and> state b \<noteq> Ok \<longrightarrow> operator_eq a b)
   \<and> (state a = Ok \<and> state b = Err \<longrightarrow> \<not> operator_eq a b \<and> operator_ne a b)
   \<and> (state a = Err \<and> state b = Ok \<longrightarrow> \<not> operator_eq a b \<and> operator_ne a b)
   \<and> operator_eq (Result_OkTag (10::int) :: (int, int) Result)
        (Result_OkTag (10::int) :: (int, int) Result)
   \<and> operator_eq (Result_ErrTag (10::int) :: (int, int) Result)
        (Result_ErrTag (10::int) :: (int, int) Result)
   \<and> operator_ne (Result_OkTag (10::int) :: (int, int) Result)
        (Result_ErrTag (10::int) :: (int, int) Result)
   \<and> operator_eq (ok (10::int)) (ok (10::int))
   \<and> operator_eq (err (10::int)) (err (10::int))
   \<and> operator_ne (ok (10::int)) (err (10::int))"
  by (simp add: operator_eq_def operator_ne_def operator_bool_def is_ok_def ok_def err_def
      Result_OkTag_def Result_ErrTag_def)

theorem equality_compares_is_ok_only_witness:
  "state (Result_OkTag (10::int) :: (int, int) Result) = Ok
   \<and> state (Result_ErrTag (10::int) :: (int, int) Result) = Err
   \<and> \<not> operator_eq (Result_OkTag (10::int) :: (int, int) Result)
          (Result_ErrTag (10::int) :: (int, int) Result)
   \<and> operator_ne (Result_OkTag (10::int) :: (int, int) Result)
          (Result_ErrTag (10::int) :: (int, int) Result)
   \<and> state (Result_OkTag (20::int) :: (int, int) Result) = Ok
   \<and> operator_eq (Result_OkTag (10::int) :: (int, int) Result)
          (Result_OkTag (20::int) :: (int, int) Result)"
proof -
  have h: "state (Result_OkTag (10::int) :: (int, int) Result) = Ok
           \<and> state (Result_ErrTag (10::int) :: (int, int) Result) = Err"
    by (simp add: Result_OkTag_def Result_ErrTag_def)
  have g: "state (Result_OkTag (10::int) :: (int, int) Result) = Ok
           \<and> state (Result_OkTag (20::int) :: (int, int) Result) = Ok"
    by (simp add: Result_OkTag_def)
  from equality_compares_is_ok_only
         [where a = "Result_OkTag (10::int) :: (int, int) Result"
            and b = "Result_ErrTag (10::int) :: (int, int) Result",
          THEN conjunct2, THEN conjunct2, THEN conjunct2, THEN conjunct2, THEN conjunct1,
          rule_format, OF h]
       equality_compares_is_ok_only
         [where a = "Result_OkTag (10::int) :: (int, int) Result"
            and b = "Result_OkTag (20::int) :: (int, int) Result",
          THEN conjunct2, THEN conjunct2, THEN conjunct1, rule_format, OF g]
       h g
  show ?thesis by blast
qed

theorem equality_ignores_values_counterexample:
  "operator_eq (Result_OkTag (10::int) :: (int, int) Result)
     (Result_OkTag (20::int) :: (int, int) Result)
   \<and> operator_eq (Result_ErrTag (10::int) :: (int, int) Result)
     (Result_ErrTag (20::int) :: (int, int) Result)
   \<and> state (snd (unwrap (Result_OkTag (10::int) :: (int, int) Result))) = MovedOk
   \<and> operator_eq (snd (unwrap (Result_OkTag (10::int) :: (int, int) Result)))
     (Result_ErrTag (3::int) :: (int, int) Result)"
  by (simp add: operator_eq_def operator_bool_def unwrap_def Result_OkTag_def
      Result_ErrTag_def)

section \<open>The fallback extractors\<close>

text \<open>
  C10. In every state other than \<open>Ok\<close>, the moved states included, \<open>unwrap_or(optb)\<close> returns
  \<open>optb\<close>, \<open>unwrap_or_else(op)\<close> returns \<open>op()\<close> and \<open>unwrap_or_default()\<close> returns \<open>T()\<close>; none
  of them goes to \<open>panic\<close>, and the result is left as it was.
\<close>

theorem fallback_extractors_total:
  fixes r :: "('t, 'e) Result"
  shows
  "state r \<noteq> Ok \<longrightarrow>
     unwrap_or r optb = (Returned optb, r)
     \<and> unwrap_or_else r op = (op (), r)
     \<and> unwrap_or_default r T_init = (Returned T_init, r)"
  by (simp add: unwrap_or_def unwrap_or_else_def unwrap_or_default_def)

theorem fallback_extractors_total_witness:
  "state (\<lparr>data = union_ok (5::int), state = MovedOk\<rparr> :: (int, int) Result) \<noteq> Ok
   \<and> unwrap_or (\<lparr>data = union_ok (5::int), state = MovedOk\<rparr> :: (int, int) Result) 99
       = (Returned 99, \<lparr>data = union_ok 5, state = MovedOk\<rparr>)
   \<and> unwrap_or_else (\<lparr>data = union_ok (5::int), state = MovedOk\<rparr> :: (int, int) Result)
        (\<lambda>u. Returned 7)
       = (Returned 7, \<lparr>data = union_ok 5, state = MovedOk\<rparr>)
   \<and> unwrap_or_default (\<lparr>data = union_ok (5::int), state = MovedOk\<rparr> :: (int, int) Result) 0
       = (Returned 0, \<lparr>data = union_ok 5, state = MovedOk\<rparr>)"
proof -
  have h: "state (\<lparr>data = union_ok (5::int), state = MovedOk\<rparr> :: (int, int) Result) \<noteq> Ok"
    by simp
  from fallback_extractors_total
         [where r = "\<lparr>data = union_ok (5::int), state = MovedOk\<rparr> :: (int, int) Result"
            and optb = 99 and op = "\<lambda>u. Returned 7" and T_init = 0,
          rule_format, OF h] h
  show ?thesis by blast
qed

end
